theory Spec2Isabelle
  imports Main
begin

section \<open>The BitBake messaging layer (lib/bb/__init__.py)\<close>

text \<open>
  A shallow embedding of the logging helpers and of the multiprocessing proxy of
  \<^verbatim>\<open>lib/bb/__init__.py\<close>. Python values that reach these functions are modelled by
  \<open>pyval\<close> (integers, strings, \<^verbatim>\<open>None\<close>, tuples and keyword dictionaries); an
  exception is the \<open>Inl\<close> side of a sum. The process-wide state the functions read
  (\<^verbatim>\<open>bb.event.worker_pid\<close>, \<^verbatim>\<open>bb.msg.loggerDefaultDomains\<close>,
  \<^verbatim>\<open>bb.msg.loggerDefaultLogLevel\<close>) and the sequence of records they hand to the
  standard \<^verbatim>\<open>logging\<close> library are the fields of the record \<open>world\<close>.
\<close>

subsection \<open>Python values and exceptions\<close>

datatype pyval =
    PyInt int
  | PyStr string
  | PyNone
  | PyTuple "pyval list"
  | PyDict "(string \<times> pyval) list"

datatype pyerr = TypeError | AttributeError string | KeyError string | BBHandledException

type_synonym kwargs = "(string \<times> pyval) list"

fun isinstance_int :: "pyval \<Rightarrow> bool" where
  "isinstance_int (PyInt n) = True"
| "isinstance_int v = False"

fun isinstance_str :: "pyval \<Rightarrow> bool" where
  "isinstance_str (PyStr s) = True"
| "isinstance_str v = False"

text \<open>\<^verbatim>\<open>a - level\<close> for an integer \<open>a\<close>: defined on integers, a TypeError on the other
  values of \<open>pyval\<close>.\<close>

fun int_sub :: "int \<Rightarrow> pyval \<Rightarrow> pyerr + int" where
  "int_sub a (PyInt n) = Inr (a - n)"
| "int_sub a v = Inl TypeError"

text \<open>\<^verbatim>\<open>''.join(args)\<close>: the concatenation of the fragments, a TypeError when one of
  them is not a string.\<close>

fun str_join :: "pyval list \<Rightarrow> pyerr + string" where
  "str_join [] = Inr []"
| "str_join (PyStr s # xs) = (case str_join xs of Inl e \<Rightarrow> Inl e | Inr r \<Rightarrow> Inr (s @ r))"
| "str_join (v # xs) = Inl TypeError"

text \<open>\<^verbatim>\<open>s.split(c)\<close> for a one-character separator.\<close>

fun split_on :: "char \<Rightarrow> string \<Rightarrow> string list" where
  "split_on c [] = [[]]"
| "split_on c (x # xs) =
     (if x = c then [] # split_on c xs
      else (case split_on c xs of [] \<Rightarrow> [[x]] | h # t \<Rightarrow> (x # h) # t))"

subsection \<open>The levels of the logging library\<close>

definition logging_DEBUG :: int where "logging_DEBUG = 10"
definition logging_INFO :: int where "logging_INFO = 20"
definition logging_WARNING :: int where "logging_WARNING = 30"
definition logging_ERROR :: int where "logging_ERROR = 40"
definition logging_CRITICAL :: int where "logging_CRITICAL = 50"

subsection \<open>Loggers, records and the process state\<close>

text \<open>The instance attribute \<^verbatim>\<open>debug\<close> of a logger: the method of the logging library's
  class, or \<^verbatim>\<open>_debug_helper\<close> once \<^verbatim>\<open>setup_bblogger\<close> has rebound it.\<close>

datatype debug_binding = Class_debug | Debug_helper

record bblogger =
  logger_name :: string
  debug_attr :: debug_binding

text \<open>One call handed to the logging library: the logger, the numeric level, the
  message, its positional arguments and its keyword arguments.\<close>

record log_call =
  lr_name :: string
  lr_levelno :: int
  lr_msg :: pyval
  lr_args :: "pyval list"
  lr_kwargs :: kwargs

record world =
  worker_pid :: int
  loggerDefaultDomains :: "string \<rightharpoonup> int"
  loggerDefaultLogLevel :: int
  emitted :: "log_call list"

text \<open>The entry points of the logging library, which is the sink of this module: a
  call is recorded in \<open>emitted\<close>. What the library does with the record afterwards (its
  own level gate, filters and handlers) lies behind this boundary.\<close>

definition Logger_log :: "bblogger \<Rightarrow> int \<Rightarrow> pyval \<Rightarrow> pyval list \<Rightarrow> kwargs \<Rightarrow> world \<Rightarrow> world" where
  "Logger_log self level m a kw w =
     w\<lparr>emitted := emitted w @
        [\<lparr>lr_name = logger_name self, lr_levelno = level, lr_msg = m, lr_args = a, lr_kwargs = kw\<rparr>]\<rparr>"

definition Logger_debug :: "bblogger \<Rightarrow> pyval \<Rightarrow> pyval list \<Rightarrow> kwargs \<Rightarrow> world \<Rightarrow> world" where
  "Logger_debug self = Logger_log self logging_DEBUG"

definition Logger_warning :: "bblogger \<Rightarrow> pyval \<Rightarrow> pyval list \<Rightarrow> kwargs \<Rightarrow> world \<Rightarrow> world" where
  "Logger_warning self = Logger_log self logging_WARNING"

definition Logger_critical :: "bblogger \<Rightarrow> pyval \<Rightarrow> pyval list \<Rightarrow> kwargs \<Rightarrow> world \<Rightarrow> world" where
  "Logger_critical self = Logger_log self logging_CRITICAL"

text \<open>The keyword \<^verbatim>\<open>extra\<close> of a logging call. \<^verbatim>\<open>Logger.makeRecord\<close> builds the record
  and then copies the keys of \<^verbatim>\<open>extra\<close> into it one by one; a key that is
  \<^verbatim>\<open>"message"\<close>, \<^verbatim>\<open>"asctime"\<close> or already an attribute of the record raises
  \<^verbatim>\<open>KeyError("Attempt to overwrite %r in LogRecord" % key)\<close>, and the record is never
  handled. The attribute names of a fresh record (\<^verbatim>\<open>name\<close>, \<^verbatim>\<open>msg\<close>, \<^verbatim>\<open>args\<close>, ...)
  depend on the version of the library and are the parameter \<open>attrs\<close>; the result is
  the key the loop stops at. The KeyError of the model carries that key.\<close>

fun extra_clash :: "string list \<Rightarrow> kwargs \<Rightarrow> string option" where
  "extra_clash attrs [] = None"
| "extra_clash attrs ((k, v) # kw) =
     (if k \<in> set [''message'', ''asctime''] \<or> k \<in> set attrs then Some k
      else extra_clash (k # attrs) kw)"

text \<open>The attributes of a fresh \<^verbatim>\<open>LogRecord\<close> in Python 3.9 to 3.11 (3.12 adds
  \<^verbatim>\<open>taskName\<close>).\<close>

definition LogRecord_fields :: "string list" where
  "LogRecord_fields =
     [''name'', ''msg'', ''args'', ''levelname'', ''levelno'', ''pathname'', ''filename'',
      ''module'', ''exc_info'', ''exc_text'', ''stack_info'', ''lineno'', ''funcName'',
      ''created'', ''msecs'', ''relativeCreated'', ''thread'', ''threadName'',
      ''processName'', ''process'']"

text \<open>\<^verbatim>\<open>logger.critical(msg, extra=d)\<close>, for a logger that is enabled for CRITICAL (as
  \<^verbatim>\<open>BitBake.Main\<close> is: the level of \<^verbatim>\<open>BitBake\<close> is set to DEBUG - 2).\<close>

definition Logger_critical_extra ::
  "string list \<Rightarrow> bblogger \<Rightarrow> pyval \<Rightarrow> kwargs \<Rightarrow> world \<Rightarrow> (pyerr + unit) \<times> world" where
  "Logger_critical_extra attrs self m d w =
     (case extra_clash attrs d of
        Some k \<Rightarrow> (Inl (KeyError k), w)
      | None \<Rightarrow> (Inr (), Logger_critical self m [] [(''extra'', PyDict d)] w))"

subsection \<open>BBLoggerMixin\<close>

text \<open>\<^verbatim>\<open>name.split(".")[0]\<close>; \<^verbatim>\<open>split\<close> never returns an empty list.\<close>

definition first_segment :: "string \<Rightarrow> string option" where
  "first_segment nm = (case split_on (CHR ''.'') nm of [] \<Rightarrow> None | h # t \<Rightarrow> Some h)"

definition setup_bblogger :: "bblogger \<Rightarrow> string \<Rightarrow> bblogger" where
  "setup_bblogger self nm =
     (if first_segment nm = Some ''BitBake'' then self\<lparr>debug_attr := Debug_helper\<rparr> else self)"

text \<open>\<^verbatim>\<open>BBLogger.__init__\<close>: \<^verbatim>\<open>setup_bblogger(name)\<close>, then the constructor of the
  library's logger class, which stores the name.\<close>

definition BBLogger_init :: "string \<Rightarrow> bblogger" where
  "BBLogger_init nm = (setup_bblogger \<lparr>logger_name = nm, debug_attr = Class_debug\<rparr> nm)"

definition mainlogger :: bblogger where
  "mainlogger = BBLogger_init ''BitBake.Main''"

text \<open>\<^verbatim>\<open>bbdebug(self, level, msg, *args, **kwargs)\<close>. The parameter \<open>rp\<close> is Python's
  built-in \<^verbatim>\<open>repr\<close>. The subtraction \<^verbatim>\<open>logging.DEBUG - level + 1\<close> comes first and
  raises TypeError on a level that is not a number, before the \<^verbatim>\<open>isinstance\<close> test
  is reached. Both early returns stand under \<^verbatim>\<open>if not bb.event.worker_pid\<close>; a
  \<^verbatim>\<open>worker_pid\<close> of 0 is the unset one.\<close>

definition bbdebug ::
  "(pyval \<Rightarrow> string) \<Rightarrow> bblogger \<Rightarrow> pyval \<Rightarrow> pyval \<Rightarrow> pyval list \<Rightarrow> kwargs \<Rightarrow> world
     \<Rightarrow> (pyerr + unit) \<times> world" where
  "bbdebug rp self level m a kw w =
     (case int_sub logging_DEBUG level of
        Inl e \<Rightarrow> (Inl e, w)
      | Inr d \<Rightarrow>
          (let loglevel = d + 1 in
           if worker_pid w = 0 \<and>
              (case loggerDefaultDomains w (logger_name self) of
                 None \<Rightarrow> False
               | Some t \<Rightarrow> loglevel > t)
           then (Inr (), w)
           else if worker_pid w = 0 \<and> loglevel < loggerDefaultLogLevel w
           then (Inr (), w)
           else
             (let w1 =
                (if \<not> isinstance_int level \<or> \<not> isinstance_str m
                 then Logger_warning mainlogger
                        (PyStr (''Invalid arguments in bbdebug: '' @ rp (PyTuple (level # m # a))))
                        [] [] w
                 else w)
              in (Inr (), Logger_log self loglevel m a kw w1))))"

definition debug_helper ::
  "(pyval \<Rightarrow> string) \<Rightarrow> bblogger \<Rightarrow> pyval \<Rightarrow> pyval list \<Rightarrow> kwargs \<Rightarrow> world
     \<Rightarrow> (pyerr + unit) \<times> world" where
  "debug_helper rp self m a kw w = bbdebug rp self (PyInt 1) m a kw w"

definition debug2 ::
  "(pyval \<Rightarrow> string) \<Rightarrow> bblogger \<Rightarrow> pyval \<Rightarrow> pyval list \<Rightarrow> kwargs \<Rightarrow> world
     \<Rightarrow> (pyerr + unit) \<times> world" where
  "debug2 rp self m a kw w = bbdebug rp self (PyInt 2) m a kw w"

definition debug3 ::
  "(pyval \<Rightarrow> string) \<Rightarrow> bblogger \<Rightarrow> pyval \<Rightarrow> pyval list \<Rightarrow> kwargs \<Rightarrow> world
     \<Rightarrow> (pyerr + unit) \<times> world" where
  "debug3 rp self m a kw w = bbdebug rp self (PyInt 3) m a kw w"

text \<open>\<^verbatim>\<open>logger.debug(msg, ...)\<close>: the attribute \<^verbatim>\<open>debug\<close> of the instance is looked up
  first, the method of the library's class otherwise.\<close>

definition call_debug ::
  "(pyval \<Rightarrow> string) \<Rightarrow> bblogger \<Rightarrow> pyval \<Rightarrow> pyval list \<Rightarrow> kwargs \<Rightarrow> world
     \<Rightarrow> (pyerr + unit) \<times> world" where
  "call_debug rp self m a kw w =
     (case debug_attr self of
        Debug_helper \<Rightarrow> debug_helper rp self m a kw w
      | Class_debug \<Rightarrow> (Inr (), Logger_debug self m a kw w))"

definition BBLoggerMixin_plain :: "bblogger \<Rightarrow> pyval \<Rightarrow> pyval list \<Rightarrow> kwargs \<Rightarrow> world \<Rightarrow> world" where
  "BBLoggerMixin_plain self m a kw w = Logger_log self (logging_INFO + 1) m a kw w"

definition BBLoggerMixin_verbose :: "bblogger \<Rightarrow> pyval \<Rightarrow> pyval list \<Rightarrow> kwargs \<Rightarrow> world \<Rightarrow> world" where
  "BBLoggerMixin_verbose self m a kw w = Logger_log self (logging_INFO - 1) m a kw w"

definition BBLoggerMixin_verbnote :: "bblogger \<Rightarrow> pyval \<Rightarrow> pyval list \<Rightarrow> kwargs \<Rightarrow> world \<Rightarrow> world" where
  "BBLoggerMixin_verbnote self m a kw w = Logger_log self (logging_INFO + 2) m a kw w"

definition BBLoggerMixin_warnonce :: "bblogger \<Rightarrow> pyval \<Rightarrow> pyval list \<Rightarrow> kwargs \<Rightarrow> world \<Rightarrow> world" where
  "BBLoggerMixin_warnonce self m a kw w = Logger_log self (logging_WARNING - 1) m a kw w"

definition BBLoggerMixin_erroronce :: "bblogger \<Rightarrow> pyval \<Rightarrow> pyval list \<Rightarrow> kwargs \<Rightarrow> world \<Rightarrow> world" where
  "BBLoggerMixin_erroronce self m a kw w = Logger_log self (logging_ERROR - 1) m a kw w"

subsection \<open>The module-level convenience functions\<close>

definition debug ::
  "(pyval \<Rightarrow> string) \<Rightarrow> pyval \<Rightarrow> pyval list \<Rightarrow> world \<Rightarrow> (pyerr + unit) \<times> world" where
  "debug rp lvl a w =
     (if isinstance_str lvl
      then
        (let w1 = Logger_warning mainlogger
                    (PyStr ''Passed invalid debug level '%s' to bb.debug'') [lvl] [] w
         in (case str_join (lvl # a) of
               Inl e \<Rightarrow> (Inl e, w1)
             | Inr s \<Rightarrow> bbdebug rp mainlogger (PyInt 1) (PyStr s) [] [] w1))
      else
        (case str_join a of
           Inl e \<Rightarrow> (Inl e, w)
         | Inr s \<Rightarrow> bbdebug rp mainlogger lvl (PyStr s) [] [] w))"

definition warnonce :: "pyval list \<Rightarrow> world \<Rightarrow> (pyerr + unit) \<times> world" where
  "warnonce a w =
     (case str_join a of
        Inl e \<Rightarrow> (Inl e, w)
      | Inr s \<Rightarrow> (Inr (), BBLoggerMixin_warnonce mainlogger (PyStr s) [] [] w))"

definition erroronce :: "pyval list \<Rightarrow> world \<Rightarrow> (pyerr + unit) \<times> world" where
  "erroronce a w =
     (case str_join a of
        Inl e \<Rightarrow> (Inl e, w)
      | Inr s \<Rightarrow> (Inr (), BBLoggerMixin_erroronce mainlogger (PyStr s) [] [] w))"

text \<open>\<^verbatim>\<open>fatal(*args, **kwargs)\<close>: an exception of \<^verbatim>\<open>mainlogger.critical\<close> leaves the
  function before \<^verbatim>\<open>raise BBHandledException()\<close> is reached.\<close>

definition fatal ::
  "string list \<Rightarrow> pyval list \<Rightarrow> kwargs \<Rightarrow> world \<Rightarrow> (pyerr + unit) \<times> world" where
  "fatal attrs a kw w =
     (case str_join a of
        Inl e \<Rightarrow> (Inl e, w)
      | Inr s \<Rightarrow>
          (case Logger_critical_extra attrs mainlogger (PyStr s) kw w of
             (Inl e, w1) \<Rightarrow> (Inl e, w1)
           | (Inr u, w1) \<Rightarrow> (Inl BBHandledException, w1)))"

subsection \<open>MultiprocessingContext\<close>

text \<open>An object whose attributes are looked up by name is a map from names to values.
  The instance holds the fork context in \<^verbatim>\<open>_ctx\<close>, stored by \<^verbatim>\<open>__init__\<close> through the
  \<^verbatim>\<open>__setattr__\<close> of the base class; the module \<^verbatim>\<open>multiprocessing\<close> (\<^verbatim>\<open>mp\<close>) is a
  global of the source and a parameter here. \<^verbatim>\<open>__getattr__\<close> is what Python calls for
  a name the instance itself does not have.\<close>

record 'v MultiprocessingContext =
  ctx :: "string \<rightharpoonup> 'v"

definition MultiprocessingContext_init :: "(string \<rightharpoonup> 'v) \<Rightarrow> 'v MultiprocessingContext" where
  "MultiprocessingContext_init fork_ctx = \<lparr>ctx = fork_ctx\<rparr>"

text \<open>The built-ins \<^verbatim>\<open>hasattr\<close> and \<^verbatim>\<open>getattr\<close>. The text of the AttributeError that
  \<^verbatim>\<open>getattr\<close> raises is the interpreter's; the model keeps the missing name in it.\<close>

definition py_hasattr :: "(string \<rightharpoonup> 'v) \<Rightarrow> string \<Rightarrow> bool" where
  "py_hasattr obj nm = (obj nm \<noteq> None)"

definition py_getattr :: "(string \<rightharpoonup> 'v) \<Rightarrow> string \<Rightarrow> pyerr + 'v" where
  "py_getattr obj nm =
     (case obj nm of None \<Rightarrow> Inl (AttributeError (''no attribute '' @ nm)) | Some v \<Rightarrow> Inr v)"

definition MultiprocessingContext_getattr ::
  "(string \<rightharpoonup> 'v) \<Rightarrow> 'v MultiprocessingContext \<Rightarrow> string \<Rightarrow> pyerr + 'v" where
  "MultiprocessingContext_getattr mp self nm =
     (if py_hasattr (ctx self) nm then py_getattr (ctx self) nm else py_getattr mp nm)"

definition MultiprocessingContext_setattr ::
  "'v MultiprocessingContext \<Rightarrow> string \<Rightarrow> 'a \<Rightarrow> (pyerr + unit) \<times> 'v MultiprocessingContext" where
  "MultiprocessingContext_setattr self nm v =
     (Inl (AttributeError (''Unable to set attribute '' @ nm)), self)"

subsection \<open>The dedup cache of the "once" levels\<close>

text \<open>Modelled from the spec: the Dedup Cache (section 4.3), whose code is not in
  \<^verbatim>\<open>lib/bb/__init__.py\<close>: the methods \<^verbatim>\<open>warnonce\<close> and \<^verbatim>\<open>erroronce\<close> above only hand a
  record at the level WARNING - 1 or ERROR - 1 to the logging library. The two
  families of "once" severities.\<close>

datatype family = Warn_family | Error_family

text \<open>Modelled from the spec: the Dedup Cache is a set of previously emitted message
  bodies, keyed per severity family.\<close>

type_synonym dedup_cache = "family \<Rightarrow> pyval set"

text \<open>Modelled from the spec: the family of a "once" severity; WARNONCE and ERRORONCE
  are the levels just below warning and error, every other level has no family.\<close>

definition once_family :: "int \<Rightarrow> family option" where
  "once_family level =
     (if level = logging_WARNING - 1 then Some Warn_family
      else if level = logging_ERROR - 1 then Some Error_family
      else None)"

text \<open>Modelled from the spec: \<^verbatim>\<open>shouldEmitOnce(family, messageBody)\<close> returns true and
  records membership on the first occurrence, and returns false on every later call
  with the same family and body.\<close>

definition shouldEmitOnce :: "family \<Rightarrow> pyval \<Rightarrow> dedup_cache \<Rightarrow> bool \<times> dedup_cache" where
  "shouldEmitOnce fam body c =
     (if body \<in> c fam then (False, c) else (True, c(fam := insert body (c fam))))"

text \<open>Modelled from the spec: the records of a process that reach the sink, in call
  order: a record of a "once" severity consults the Dedup Cache before it is emitted,
  every other record is emitted.\<close>

fun forward_once :: "dedup_cache \<Rightarrow> log_call list \<Rightarrow> log_call list" where
  "forward_once c [] = []"
| "forward_once c (r # rs) =
     (case once_family (lr_levelno r) of
        None \<Rightarrow> r # forward_once c rs
      | Some fam \<Rightarrow>
          (case shouldEmitOnce fam (lr_msg r) c of
             (ok, c') \<Rightarrow> if ok then r # forward_once c' rs else forward_once c' rs))"

section \<open>Properties\<close>

subsection \<open>Helper facts\<close>

lemma str_join_strs: "str_join (map PyStr fs) = Inr (concat fs)"
  by (induction fs) simp_all

lemma mainlogger_name: "logger_name mainlogger = ''BitBake.Main''"
  by (simp add: mainlogger_def BBLogger_init_def setup_bblogger_def)

lemma extra_clash_None:
  "extra_clash attrs kw = None \<longleftrightarrow>
     distinct (map fst kw) \<and>
     set (map fst kw) \<inter> (set attrs \<union> {''message'', ''asctime''}) = {}"
proof (induction attrs kw rule: extra_clash.induct)
  case (1 attrs)
  show ?case by simp
next
  case (2 attrs k v kw)
  show ?case
  proof (cases "k \<in> set [''message'', ''asctime''] \<or> k \<in> set attrs")
    case True
    then show ?thesis by auto
  next
    case False
    with 2 have "extra_clash (k # attrs) kw = None \<longleftrightarrow>
       distinct (map fst kw) \<and>
       set (map fst kw) \<inter> (set (k # attrs) \<union> {''message'', ''asctime''}) = {}"
      by blast
    with False show ?thesis by auto
  qed
qed

lemma bbdebug_int:
  "bbdebug rp self (PyInt n) m a kw w =
     (if worker_pid w = 0 \<and>
         ((case loggerDefaultDomains w (logger_name self) of None \<Rightarrow> False
           | Some t \<Rightarrow> logging_DEBUG - n + 1 > t)
          \<or> logging_DEBUG - n + 1 < loggerDefaultLogLevel w)
      then (Inr (), w)
      else (Inr (),
            w\<lparr>emitted := emitted w @
               (if isinstance_str m then []
                else [\<lparr>lr_name = ''BitBake.Main'', lr_levelno = logging_WARNING,
                       lr_msg = PyStr (''Invalid arguments in bbdebug: '' @
                                       rp (PyTuple (PyInt n # m # a))),
                       lr_args = [], lr_kwargs = []\<rparr>]) @
               [\<lparr>lr_name = logger_name self, lr_levelno = logging_DEBUG - n + 1,
                 lr_msg = m, lr_args = a, lr_kwargs = kw\<rparr>]\<rparr>))"
  by (auto simp add: bbdebug_def Let_def Logger_log_def Logger_warning_def mainlogger_name)

lemma first_segment_takeWhile:
  "first_segment nm = Some (takeWhile (\<lambda>c. c \<noteq> CHR ''.'') nm)"
  unfolding first_segment_def
  by (induction nm) (auto split: list.splits)

lemma debug_str_level:
  "debug rp (PyStr s) (map PyStr fs) w =
     bbdebug rp mainlogger (PyInt 1) (PyStr (s @ concat fs)) [] []
       (w\<lparr>emitted := emitted w @
          [\<lparr>lr_name = ''BitBake.Main'', lr_levelno = logging_WARNING,
            lr_msg = PyStr ''Passed invalid debug level '%s' to bb.debug'',
            lr_args = [PyStr s], lr_kwargs = []\<rparr>]\<rparr>)"
  by (simp add: debug_def str_join_strs Logger_warning_def Logger_log_def mainlogger_name)

lemma debug_int_level:
  "debug rp (PyInt n) (map PyStr fs) w =
     bbdebug rp mainlogger (PyInt n) (PyStr (concat fs)) [] [] w"
  by (simp add: debug_def str_join_strs)

lemma warnonce_strs:
  "warnonce (map PyStr fs) w =
     (Inr (), w\<lparr>emitted := emitted w @
        [\<lparr>lr_name = ''BitBake.Main'', lr_levelno = logging_WARNING - 1,
          lr_msg = PyStr (concat fs), lr_args = [], lr_kwargs = []\<rparr>]\<rparr>)"
  by (simp add: warnonce_def str_join_strs BBLoggerMixin_warnonce_def Logger_log_def
      mainlogger_name)

lemma erroronce_strs:
  "erroronce (map PyStr fs) w =
     (Inr (), w\<lparr>emitted := emitted w @
        [\<lparr>lr_name = ''BitBake.Main'', lr_levelno = logging_ERROR - 1,
          lr_msg = PyStr (concat fs), lr_args = [], lr_kwargs = []\<rparr>]\<rparr>)"
  by (simp add: erroronce_def str_join_strs BBLoggerMixin_erroronce_def Logger_log_def
      mainlogger_name)

lemma emit_repeated:
  "emitted (((\<lambda>w. w\<lparr>emitted := emitted w @ [r]\<rparr>) ^^ k) w) = emitted w @ replicate k r"
  by (induction k) (simp_all add: replicate_append_same)

lemma warnonce_repeated:
  "emitted (((\<lambda>w. snd (warnonce (map PyStr fs) w)) ^^ k) w) =
     emitted w @ replicate k
        \<lparr>lr_name = ''BitBake.Main'', lr_levelno = logging_WARNING - 1,
          lr_msg = PyStr (concat fs), lr_args = [], lr_kwargs = []\<rparr>"
  by (simp add: warnonce_strs emit_repeated)

lemma forward_once_count:
  "once_family lvl = Some fam \<Longrightarrow>
   length (filter (\<lambda>r. lr_levelno r = lvl \<and> lr_msg r = b) (forward_once c rs))
     \<le> (if b \<in> c fam then 0 else 1)"
proof (induction rs arbitrary: c)
  case Nil
  then show ?case by simp
next
  case (Cons r rs)
  show ?case
  proof (cases "once_family (lr_levelno r)")
    case None
    with Cons.prems have "lr_levelno r \<noteq> lvl" by auto
    with None Cons.IH [OF Cons.prems, of c] show ?thesis by simp
  next
    case (Some fam')
    show ?thesis
    proof (cases "lr_msg r \<in> c fam'")
      case True
      with Some Cons.IH [OF Cons.prems, of c] show ?thesis
        by (simp add: shouldEmitOnce_def)
    next
      case False
      define c' where "c' = c(fam' := insert (lr_msg r) (c fam'))"
      have step: "forward_once c (r # rs) = r # forward_once c' rs"
        using Some False by (simp add: shouldEmitOnce_def c'_def)
      have fam_lvl: "fam' = fam \<longleftrightarrow> lr_levelno r = lvl"
        using Some Cons.prems
        by (auto simp add: once_family_def logging_WARNING_def logging_ERROR_def split: if_splits)
      have c'_fam: "c' fam = (if fam' = fam then insert (lr_msg r) (c fam) else c fam)"
        by (simp add: c'_def)
      have ih: "length (filter (\<lambda>r. lr_levelno r = lvl \<and> lr_msg r = b) (forward_once c' rs))
                  \<le> (if b \<in> c' fam then 0 else 1)"
        by (rule Cons.IH [OF Cons.prems])
      show ?thesis
        unfolding step using ih fam_lvl False by (auto simp add: c'_fam split: if_splits)
    qed
  qed
qed

lemma forward_once_seen:
  "once_family (lr_levelno r) = Some fam \<Longrightarrow> lr_msg r \<in> c fam \<Longrightarrow>
   forward_once c (replicate k r) = []"
  by (induction k) (simp_all add: shouldEmitOnce_def)

lemma forward_once_replicate:
  "once_family (lr_levelno r) = Some fam \<Longrightarrow> lr_msg r \<notin> c fam \<Longrightarrow>
   forward_once c (replicate k r) = (if k = 0 then [] else [r])"
  by (cases k) (simp_all add: shouldEmitOnce_def forward_once_seen [of r fam])

subsection \<open>The claims\<close>

text \<open>
  Claim C1. In the primary process (\<^verbatim>\<open>worker_pid\<close> unset), \<^verbatim>\<open>bbdebug(n, msg)\<close> with an
  integer \<open>n\<close> hands its record to the logging library if and only if the logger's
  name has no entry in \<^verbatim>\<open>loggerDefaultDomains\<close> or the level \<open>DEBUG - n + 1\<close> is at
  most that entry, and the level is at least \<^verbatim>\<open>loggerDefaultLogLevel\<close>; otherwise
  nothing is recorded. (A message that is not a string adds the warning about invalid
  arguments in front of the record.)
\<close>

theorem bbdebug_primary_filter:
  "worker_pid w = 0 \<Longrightarrow>
   bbdebug rp self (PyInt n) m a kw w =
     (Inr (),
      if (case loggerDefaultDomains w (logger_name self) of None \<Rightarrow> True
          | Some t \<Rightarrow> logging_DEBUG - n + 1 \<le> t)
         \<and> logging_DEBUG - n + 1 \<ge> loggerDefaultLogLevel w
      then w\<lparr>emitted := emitted w @
               (if isinstance_str m then []
                else [\<lparr>lr_name = ''BitBake.Main'', lr_levelno = logging_WARNING,
                       lr_msg = PyStr (''Invalid arguments in bbdebug: '' @
                                       rp (PyTuple (PyInt n # m # a))),
                       lr_args = [], lr_kwargs = []\<rparr>]) @
               [\<lparr>lr_name = logger_name self, lr_levelno = logging_DEBUG - n + 1,
                 lr_msg = m, lr_args = a, lr_kwargs = kw\<rparr>]\<rparr>
      else w)"
  by (auto simp add: bbdebug_int split: option.splits)

theorem bbdebug_primary_filter_witness:
  "bbdebug (\<lambda>v. ''?'') \<lparr>logger_name = ''BitBake.Fetcher'', debug_attr = Debug_helper\<rparr>
     (PyInt 1) (PyStr ''x'') [] []
     \<lparr>worker_pid = 0, loggerDefaultDomains = [''BitBake.Fetcher'' \<mapsto> 9],
      loggerDefaultLogLevel = 8, emitted = []\<rparr>
   = (Inr (), \<lparr>worker_pid = 0, loggerDefaultDomains = [''BitBake.Fetcher'' \<mapsto> 9],
      loggerDefaultLogLevel = 8, emitted = []\<rparr>)
   \<and>
   bbdebug (\<lambda>v. ''?'') \<lparr>logger_name = ''BitBake.Fetcher'', debug_attr = Debug_helper\<rparr>
     (PyInt 2) (PyStr ''x'') [] []
     \<lparr>worker_pid = 0, loggerDefaultDomains = [''BitBake.Fetcher'' \<mapsto> 9],
      loggerDefaultLogLevel = 8, emitted = []\<rparr>
   = (Inr (), \<lparr>worker_pid = 0, loggerDefaultDomains = [''BitBake.Fetcher'' \<mapsto> 9],
      loggerDefaultLogLevel = 8,
      emitted = [\<lparr>lr_name = ''BitBake.Fetcher'', lr_levelno = 9, lr_msg = PyStr ''x'',
                  lr_args = [], lr_kwargs = []\<rparr>]\<rparr>)"
  using bbdebug_primary_filter [of "\<lparr>worker_pid = 0, loggerDefaultDomains = [''BitBake.Fetcher'' \<mapsto> 9],
      loggerDefaultLogLevel = 8, emitted = []\<rparr>" "\<lambda>v. ''?''"
      "\<lparr>logger_name = ''BitBake.Fetcher'', debug_attr = Debug_helper\<rparr>" 1 "PyStr ''x''" "[]" "[]"]
    bbdebug_primary_filter [of "\<lparr>worker_pid = 0, loggerDefaultDomains = [''BitBake.Fetcher'' \<mapsto> 9],
      loggerDefaultLogLevel = 8, emitted = []\<rparr>" "\<lambda>v. ''?''"
      "\<lparr>logger_name = ''BitBake.Fetcher'', debug_attr = Debug_helper\<rparr>" 2 "PyStr ''x''" "[]" "[]"]
  by (simp add: logging_DEBUG_def)

text \<open>
  Claim C2, as amended. For every sequence of text fragments and every keyword
  metadata whose keys the logging library accepts as \<^verbatim>\<open>extra\<close> (none of them is
  \<^verbatim>\<open>message\<close>, \<^verbatim>\<open>asctime\<close> or an attribute name of a log record), \<^verbatim>\<open>fatal\<close> hands
  exactly one record to the logging library, for the logger \<^verbatim>\<open>BitBake.Main\<close> at level
  CRITICAL, whose message is the concatenation of the fragments and whose \<^verbatim>\<open>extra\<close>
  is the metadata; it then raises BBHandledException. When the library refuses a key,
  its KeyError leaves \<^verbatim>\<open>fatal\<close> and no record is emitted. Whatever its arguments,
  \<^verbatim>\<open>fatal\<close> never returns normally.
\<close>

theorem fatal_emits_then_raises:
  "(distinct (map fst kw) \<and>
    set (map fst kw) \<inter> (set attrs \<union> {''message'', ''asctime''}) = {} \<longrightarrow>
      fatal attrs (map PyStr frags) kw w =
        (Inl BBHandledException,
         w\<lparr>emitted := emitted w @
             [\<lparr>lr_name = ''BitBake.Main'', lr_levelno = logging_CRITICAL,
               lr_msg = PyStr (concat frags), lr_args = [],
               lr_kwargs = [(''extra'', PyDict kw)]\<rparr>]\<rparr>))
   \<and> (extra_clash attrs kw = Some k \<longrightarrow>
        fatal attrs (map PyStr frags) kw w = (Inl (KeyError k), w))
   \<and> isl (fst (fatal attrs a kw w))"
proof (intro conjI impI)
  assume "distinct (map fst kw) \<and>
    set (map fst kw) \<inter> (set attrs \<union> {''message'', ''asctime''}) = {}"
  then have "extra_clash attrs kw = None"
    by (simp add: extra_clash_None)
  then show "fatal attrs (map PyStr frags) kw w =
        (Inl BBHandledException,
         w\<lparr>emitted := emitted w @
             [\<lparr>lr_name = ''BitBake.Main'', lr_levelno = logging_CRITICAL,
               lr_msg = PyStr (concat frags), lr_args = [],
               lr_kwargs = [(''extra'', PyDict kw)]\<rparr>]\<rparr>)"
    by (simp add: fatal_def str_join_strs Logger_critical_extra_def Logger_critical_def
        Logger_log_def mainlogger_name)
next
  assume "extra_clash attrs kw = Some k"
  then show "fatal attrs (map PyStr frags) kw w = (Inl (KeyError k), w)"
    by (simp add: fatal_def str_join_strs Logger_critical_extra_def)
next
  show "isl (fst (fatal attrs a kw w))"
    by (simp add: fatal_def Logger_critical_extra_def split: sum.split option.split)
qed

theorem fatal_emits_then_raises_witness:
  "fatal LogRecord_fields [PyStr ''cannot '', PyStr ''parse''] [(''forcelog'', PyInt 1)]
     \<lparr>worker_pid = 0, loggerDefaultDomains = Map.empty, loggerDefaultLogLevel = 20,
      emitted = []\<rparr>
   = (Inl BBHandledException,
      \<lparr>worker_pid = 0, loggerDefaultDomains = Map.empty, loggerDefaultLogLevel = 20,
       emitted =
         [\<lparr>lr_name = ''BitBake.Main'', lr_levelno = 50, lr_msg = PyStr ''cannot parse'',
            lr_args = [], lr_kwargs = [(''extra'', PyDict [(''forcelog'', PyInt 1)])]\<rparr>]\<rparr>)
   \<and> fatal LogRecord_fields [PyStr ''cannot '', PyStr ''parse'']
       [(''forcelog'', PyInt 1), (''args'', PyNone)]
     \<lparr>worker_pid = 0, loggerDefaultDomains = Map.empty, loggerDefaultLogLevel = 20,
      emitted = []\<rparr>
   = (Inl (KeyError ''args''),
      \<lparr>worker_pid = 0, loggerDefaultDomains = Map.empty, loggerDefaultLogLevel = 20,
       emitted = []\<rparr>)"
  using fatal_emits_then_raises [of "[(''forcelog'', PyInt 1)]" LogRecord_fields
      "[''cannot '', ''parse'']"
      "\<lparr>worker_pid = 0, loggerDefaultDomains = Map.empty, loggerDefaultLogLevel = 20,
        emitted = []\<rparr>"]
    fatal_emits_then_raises [of "[(''forcelog'', PyInt 1), (''args'', PyNone)]" LogRecord_fields
      "[''cannot '', ''parse'']"
      "\<lparr>worker_pid = 0, loggerDefaultDomains = Map.empty, loggerDefaultLogLevel = 20,
        emitted = []\<rparr>" "''args''"]
  by (simp add: LogRecord_fields_def logging_CRITICAL_def)

text \<open>
  Claim C2 as stated fails for the metadata \<^verbatim>\<open>msg='y'\<close>: \<^verbatim>\<open>fatal('x', msg='y')\<close> ends
  in the KeyError of the logging library, with no record emitted and without
  BBHandledException.
\<close>

theorem fatal_reserved_key_counterexample:
  "fatal LogRecord_fields [PyStr ''x''] [(''msg'', PyStr ''y'')]
     \<lparr>worker_pid = 0, loggerDefaultDomains = Map.empty, loggerDefaultLogLevel = 20,
      emitted = []\<rparr>
   = (Inl (KeyError ''msg''),
      \<lparr>worker_pid = 0, loggerDefaultDomains = Map.empty, loggerDefaultLogLevel = 20,
       emitted = []\<rparr>)"
  by (simp add: fatal_def Logger_critical_extra_def LogRecord_fields_def)

text \<open>
  Claim C3. With the Dedup Cache between the logging calls and the sink (empty when
  the process starts): any number of \<^verbatim>\<open>warnonce\<close> calls with the same fragments forwards
  at most one record of the warning family with that body, and exactly one when at
  least one call is made in a fresh process; \<^verbatim>\<open>warnonce\<close> followed by \<^verbatim>\<open>erroronce\<close> with
  the same body forwards two records, one per family.
\<close>

theorem warnonce_dedup:
  "length (filter (\<lambda>r. lr_levelno r = logging_WARNING - 1 \<and> lr_msg r = PyStr (concat fs))
             (forward_once (\<lambda>fam. {})
                (emitted (((\<lambda>w. snd (warnonce (map PyStr fs) w)) ^^ k) w)))) \<le> 1
   \<and> (emitted w = [] \<longrightarrow>
        forward_once (\<lambda>fam. {}) (emitted (((\<lambda>w. snd (warnonce (map PyStr fs) w)) ^^ k) w))
          = (if k = 0 then []
             else [\<lparr>lr_name = ''BitBake.Main'', lr_levelno = logging_WARNING - 1,
                     lr_msg = PyStr (concat fs), lr_args = [], lr_kwargs = []\<rparr>]))
   \<and> (emitted w = [] \<longrightarrow>
        forward_once (\<lambda>fam. {})
          (emitted (snd (erroronce (map PyStr fs) (snd (warnonce (map PyStr fs) w)))))
          = [\<lparr>lr_name = ''BitBake.Main'', lr_levelno = logging_WARNING - 1,
               lr_msg = PyStr (concat fs), lr_args = [], lr_kwargs = []\<rparr>,
             \<lparr>lr_name = ''BitBake.Main'', lr_levelno = logging_ERROR - 1,
               lr_msg = PyStr (concat fs), lr_args = [], lr_kwargs = []\<rparr>])"
proof (intro conjI impI)
  have fam: "once_family (logging_WARNING - 1) = Some Warn_family"
    by (simp add: once_family_def)
  show "length (filter (\<lambda>r. lr_levelno r = logging_WARNING - 1 \<and> lr_msg r = PyStr (concat fs))
             (forward_once (\<lambda>fam. {})
                (emitted (((\<lambda>w. snd (warnonce (map PyStr fs) w)) ^^ k) w)))) \<le> 1"
    using forward_once_count [OF fam, of "PyStr (concat fs)" "\<lambda>fam. {}"] by simp
next
  assume "emitted w = []"
  then show "forward_once (\<lambda>fam. {}) (emitted (((\<lambda>w. snd (warnonce (map PyStr fs) w)) ^^ k) w))
          = (if k = 0 then []
             else [\<lparr>lr_name = ''BitBake.Main'', lr_levelno = logging_WARNING - 1,
                     lr_msg = PyStr (concat fs), lr_args = [], lr_kwargs = []\<rparr>])"
    by (simp add: warnonce_repeated forward_once_replicate [of _ Warn_family] once_family_def)
next
  assume "emitted w = []"
  then show "forward_once (\<lambda>fam. {})
          (emitted (snd (erroronce (map PyStr fs) (snd (warnonce (map PyStr fs) w)))))
          = [\<lparr>lr_name = ''BitBake.Main'', lr_levelno = logging_WARNING - 1,
               lr_msg = PyStr (concat fs), lr_args = [], lr_kwargs = []\<rparr>,
             \<lparr>lr_name = ''BitBake.Main'', lr_levelno = logging_ERROR - 1,
               lr_msg = PyStr (concat fs), lr_args = [], lr_kwargs = []\<rparr>]"
    by (simp add: warnonce_strs erroronce_strs once_family_def shouldEmitOnce_def
        logging_WARNING_def logging_ERROR_def)
qed

theorem warnonce_dedup_witness:
  "forward_once (\<lambda>fam. {})
     (emitted (((\<lambda>w. snd (warnonce [PyStr ''disk '', PyStr ''full''] w)) ^^ 5)
        \<lparr>worker_pid = 0, loggerDefaultDomains = Map.empty, loggerDefaultLogLevel = 20,
         emitted = []\<rparr>))
     = [\<lparr>lr_name = ''BitBake.Main'', lr_levelno = 29, lr_msg = PyStr ''disk full'',
          lr_args = [], lr_kwargs = []\<rparr>]
   \<and> forward_once (\<lambda>fam. {})
       (emitted (snd (erroronce [PyStr ''disk '', PyStr ''full'']
          (snd (warnonce [PyStr ''disk '', PyStr ''full'']
            \<lparr>worker_pid = 0, loggerDefaultDomains = Map.empty, loggerDefaultLogLevel = 20,
             emitted = []\<rparr>)))))
     = [\<lparr>lr_name = ''BitBake.Main'', lr_levelno = 29, lr_msg = PyStr ''disk full'',
          lr_args = [], lr_kwargs = []\<rparr>,
        \<lparr>lr_name = ''BitBake.Main'', lr_levelno = 39, lr_msg = PyStr ''disk full'',
          lr_args = [], lr_kwargs = []\<rparr>]"
  using warnonce_dedup [of "[''disk '', ''full'']" 5
      "\<lparr>worker_pid = 0, loggerDefaultDomains = Map.empty, loggerDefaultLogLevel = 20,
         emitted = []\<rparr>"]
  by (simp add: logging_WARNING_def logging_ERROR_def)

text \<open>
  Claim C4. In a worker process (\<^verbatim>\<open>worker_pid\<close> set), \<^verbatim>\<open>bbdebug(n, msg)\<close> hands its
  record to the logging library for every integer \<open>n\<close>, and neither the result nor the
  records depend on \<^verbatim>\<open>loggerDefaultDomains\<close> or \<^verbatim>\<open>loggerDefaultLogLevel\<close>.
\<close>

theorem bbdebug_worker_unfiltered:
  "worker_pid w \<noteq> 0 \<Longrightarrow>
   bbdebug rp self (PyInt n) m a kw w =
     (Inr (),
      w\<lparr>emitted := emitted w @
           (if isinstance_str m then []
            else [\<lparr>lr_name = ''BitBake.Main'', lr_levelno = logging_WARNING,
                   lr_msg = PyStr (''Invalid arguments in bbdebug: '' @
                                   rp (PyTuple (PyInt n # m # a))),
                   lr_args = [], lr_kwargs = []\<rparr>]) @
           [\<lparr>lr_name = logger_name self, lr_levelno = logging_DEBUG - n + 1,
             lr_msg = m, lr_args = a, lr_kwargs = kw\<rparr>]\<rparr>)
   \<and> emitted (snd (bbdebug rp self (PyInt n) m a kw
                   (w\<lparr>loggerDefaultDomains := d, loggerDefaultLogLevel := f\<rparr>)))
     = emitted (snd (bbdebug rp self (PyInt n) m a kw w))
   \<and> fst (bbdebug rp self (PyInt n) m a kw
                   (w\<lparr>loggerDefaultDomains := d, loggerDefaultLogLevel := f\<rparr>))
     = fst (bbdebug rp self (PyInt n) m a kw w)"
  by (simp add: bbdebug_int)

theorem bbdebug_worker_unfiltered_witness:
  "bbdebug (\<lambda>v. ''?'') \<lparr>logger_name = ''BitBake.Fetcher'', debug_attr = Debug_helper\<rparr>
     (PyInt 3) (PyStr ''x'') [] []
     \<lparr>worker_pid = 4242, loggerDefaultDomains = [''BitBake.Fetcher'' \<mapsto> 0],
      loggerDefaultLogLevel = 50, emitted = []\<rparr>
   = (Inr (), \<lparr>worker_pid = 4242, loggerDefaultDomains = [''BitBake.Fetcher'' \<mapsto> 0],
      loggerDefaultLogLevel = 50,
      emitted = [\<lparr>lr_name = ''BitBake.Fetcher'', lr_levelno = 8, lr_msg = PyStr ''x'',
                  lr_args = [], lr_kwargs = []\<rparr>]\<rparr>)"
  using bbdebug_worker_unfiltered [of "\<lparr>worker_pid = 4242,
      loggerDefaultDomains = [''BitBake.Fetcher'' \<mapsto> 0],
      loggerDefaultLogLevel = 50, emitted = []\<rparr>" "\<lambda>v. ''?''"
      "\<lparr>logger_name = ''BitBake.Fetcher'', debug_attr = Debug_helper\<rparr>" 3 "PyStr ''x''" "[]" "[]"]
  by (simp add: logging_DEBUG_def)

text \<open>
  Claim C5, as amended. When the level argument of the module-level \<^verbatim>\<open>debug\<close> is a
  string, the function logs a warning for \<^verbatim>\<open>BitBake.Main\<close> naming the misused level,
  goes on with \<^verbatim>\<open>bbdebug\<close> at level 1 and returns normally. When the level is an
  integer \<open>n\<close>, positive or not, there is no warning and no coercion: the record, when
  the filter of \<^verbatim>\<open>bbdebug\<close> lets it through, has level DEBUG - n + 1.
\<close>

theorem debug_coerces_string_level:
  "debug rp (PyStr s) (map PyStr fs) w =
     bbdebug rp mainlogger (PyInt 1) (PyStr (s @ concat fs)) [] []
       (w\<lparr>emitted := emitted w @
          [\<lparr>lr_name = ''BitBake.Main'', lr_levelno = logging_WARNING,
            lr_msg = PyStr ''Passed invalid debug level '%s' to bb.debug'',
            lr_args = [PyStr s], lr_kwargs = []\<rparr>]\<rparr>)
   \<and> fst (debug rp (PyStr s) (map PyStr fs) w) = Inr ()
   \<and> debug rp (PyInt n) (map PyStr fs) w =
       (Inr (),
        if worker_pid w = 0 \<and>
           ((case loggerDefaultDomains w ''BitBake.Main'' of None \<Rightarrow> False
             | Some t \<Rightarrow> logging_DEBUG - n + 1 > t)
            \<or> logging_DEBUG - n + 1 < loggerDefaultLogLevel w)
        then w
        else w\<lparr>emitted := emitted w @
               [\<lparr>lr_name = ''BitBake.Main'', lr_levelno = logging_DEBUG - n + 1,
                 lr_msg = PyStr (concat fs), lr_args = [], lr_kwargs = []\<rparr>]\<rparr>)"
  by (simp add: debug_str_level debug_int_level bbdebug_int mainlogger_name)

theorem debug_coerces_string_level_witness:
  "debug (\<lambda>v. ''?'') (PyStr ''2'') [PyStr ''y'']
     \<lparr>worker_pid = 0, loggerDefaultDomains = Map.empty, loggerDefaultLogLevel = 8,
      emitted = []\<rparr>
   = (Inr (),
      \<lparr>worker_pid = 0, loggerDefaultDomains = Map.empty, loggerDefaultLogLevel = 8,
       emitted =
         [\<lparr>lr_name = ''BitBake.Main'', lr_levelno = 30,
            lr_msg = PyStr ''Passed invalid debug level '%s' to bb.debug'',
            lr_args = [PyStr ''2''], lr_kwargs = []\<rparr>,
          \<lparr>lr_name = ''BitBake.Main'', lr_levelno = 10, lr_msg = PyStr ''2y'',
            lr_args = [], lr_kwargs = []\<rparr>]\<rparr>)
   \<and> debug (\<lambda>v. ''?'') (PyInt 2) [PyStr ''y'']
     \<lparr>worker_pid = 0, loggerDefaultDomains = Map.empty, loggerDefaultLogLevel = 8,
      emitted = []\<rparr>
   = (Inr (),
      \<lparr>worker_pid = 0, loggerDefaultDomains = Map.empty, loggerDefaultLogLevel = 8,
       emitted =
         [\<lparr>lr_name = ''BitBake.Main'', lr_levelno = 9, lr_msg = PyStr ''y'',
            lr_args = [], lr_kwargs = []\<rparr>]\<rparr>)"
  using debug_coerces_string_level [of "\<lambda>v. ''?''" "''2''" "[''y'']"
      "\<lparr>worker_pid = 0, loggerDefaultDomains = Map.empty, loggerDefaultLogLevel = 8,
        emitted = []\<rparr>" 2]
  by (simp add: bbdebug_int mainlogger_name logging_DEBUG_def logging_WARNING_def)

text \<open>
  Claim C5 as stated fails at the level 0, which is not a positive integer:
  \<^verbatim>\<open>debug(0, "y")\<close> logs no warning and emits at level 11 = DEBUG - 0 + 1, not at
  DEBUG(1) = 10.
\<close>

theorem debug_nonpositive_level_counterexample:
  "debug (\<lambda>v. ''?'') (PyInt 0) [PyStr ''y'']
     \<lparr>worker_pid = 0, loggerDefaultDomains = Map.empty, loggerDefaultLogLevel = 8,
      emitted = []\<rparr>
   = (Inr (),
      \<lparr>worker_pid = 0, loggerDefaultDomains = Map.empty, loggerDefaultLogLevel = 8,
       emitted =
         [\<lparr>lr_name = ''BitBake.Main'', lr_levelno = 11, lr_msg = PyStr ''y'',
            lr_args = [], lr_kwargs = []\<rparr>]\<rparr>)"
  using debug_int_level [of "\<lambda>v. ''?''" 0 "[''y'']"]
  by (simp add: bbdebug_int mainlogger_name logging_DEBUG_def)

text \<open>
  Claim C6. \<^verbatim>\<open>__getattr__(name)\<close> of the multiprocessing proxy returns the fork context's
  attribute when the fork context has that name, the attribute of the
  \<^verbatim>\<open>multiprocessing\<close> module otherwise, and raises AttributeError if and only if
  neither of them has the name.
\<close>

theorem getattr_fast_then_generic:
  "(ctx self nm = Some v \<longrightarrow> MultiprocessingContext_getattr mp self nm = Inr v)
   \<and> (ctx self nm = None \<and> mp nm = Some v \<longrightarrow> MultiprocessingContext_getattr mp self nm = Inr v)
   \<and> (isl (MultiprocessingContext_getattr mp self nm) \<longleftrightarrow> ctx self nm = None \<and> mp nm = None)
   \<and> (ctx self nm = None \<and> mp nm = None \<longrightarrow>
        MultiprocessingContext_getattr mp self nm = Inl (AttributeError (''no attribute '' @ nm)))"
  by (auto simp add: MultiprocessingContext_getattr_def py_hasattr_def py_getattr_def
      split: option.splits)

theorem getattr_fast_then_generic_witness:
  "MultiprocessingContext_getattr [''Lock'' \<mapsto> (2::nat), ''Pool'' \<mapsto> 3]
     (MultiprocessingContext_init [''Lock'' \<mapsto> 1]) ''Lock'' = Inr 1
   \<and> MultiprocessingContext_getattr [''Lock'' \<mapsto> (2::nat), ''Pool'' \<mapsto> 3]
     (MultiprocessingContext_init [''Lock'' \<mapsto> 1]) ''Pool'' = Inr 3
   \<and> MultiprocessingContext_getattr [''Lock'' \<mapsto> (2::nat), ''Pool'' \<mapsto> 3]
     (MultiprocessingContext_init [''Lock'' \<mapsto> 1]) ''NoSuchThing''
       = Inl (AttributeError ''no attribute NoSuchThing'')"
  using getattr_fast_then_generic [of "MultiprocessingContext_init [''Lock'' \<mapsto> 1]" "''Lock''" "1::nat"
          "[''Lock'' \<mapsto> (2::nat), ''Pool'' \<mapsto> 3]"]
        getattr_fast_then_generic [of "MultiprocessingContext_init [''Lock'' \<mapsto> 1]" "''Pool''" "3::nat"
          "[''Lock'' \<mapsto> (2::nat), ''Pool'' \<mapsto> 3]"]
        getattr_fast_then_generic [of "MultiprocessingContext_init [''Lock'' \<mapsto> 1]" "''NoSuchThing''" "0::nat"
          "[''Lock'' \<mapsto> (2::nat), ''Pool'' \<mapsto> 3]"]
  by (simp add: MultiprocessingContext_init_def)

text \<open>
  Claim C7. Setting any attribute to any value on the constructed proxy raises
  AttributeError; the fork context the proxy holds is unchanged, and every later
  attribute lookup gives what it gave before.
\<close>

theorem setattr_always_fails:
  "MultiprocessingContext_setattr (MultiprocessingContext_init fork_ctx) nm v
     = (Inl (AttributeError (''Unable to set attribute '' @ nm)), MultiprocessingContext_init fork_ctx)
   \<and> fst (MultiprocessingContext_setattr self nm v) = Inl (AttributeError (''Unable to set attribute '' @ nm))
   \<and> ctx (snd (MultiprocessingContext_setattr self nm v)) = ctx self
   \<and> MultiprocessingContext_getattr mp (snd (MultiprocessingContext_setattr self nm v)) nm'
       = MultiprocessingContext_getattr mp self nm'"
  by (simp add: MultiprocessingContext_setattr_def)

text \<open>
  Claim C8. The levels of the records: \<^verbatim>\<open>plain\<close> is INFO + 1, \<^verbatim>\<open>verbose\<close> is
  INFO - 1, \<^verbatim>\<open>verbnote\<close> is INFO + 2, \<^verbatim>\<open>warnonce\<close> is WARNING - 1, \<^verbatim>\<open>erroronce\<close> is
  ERROR - 1 and \<^verbatim>\<open>bbdebug(n, ...)\<close> is DEBUG - n + 1 (read off the record a worker
  process emits, where no filter applies); for positive \<open>n\<close> the debug levels strictly
  decrease as \<open>n\<close> grows and all lie below INFO.
\<close>

theorem severity_levels:
  "map lr_levelno (emitted (BBLoggerMixin_plain self m a kw w))
     = map lr_levelno (emitted w) @ [logging_INFO + 1]
   \<and> map lr_levelno (emitted (BBLoggerMixin_verbose self m a kw w))
     = map lr_levelno (emitted w) @ [logging_INFO - 1]
   \<and> map lr_levelno (emitted (BBLoggerMixin_verbnote self m a kw w))
     = map lr_levelno (emitted w) @ [logging_INFO + 2]
   \<and> map lr_levelno (emitted (BBLoggerMixin_warnonce self m a kw w))
     = map lr_levelno (emitted w) @ [logging_WARNING - 1]
   \<and> map lr_levelno (emitted (BBLoggerMixin_erroronce self m a kw w))
     = map lr_levelno (emitted w) @ [logging_ERROR - 1]
   \<and> (worker_pid w \<noteq> 0 \<longrightarrow>
        map lr_levelno (emitted (snd (bbdebug rp self (PyInt n) (PyStr s) a kw w)))
          = map lr_levelno (emitted w) @ [logging_DEBUG - n + 1])
   \<and> (0 < n \<and> n < n' \<and> worker_pid w \<noteq> 0 \<longrightarrow>
        last (map lr_levelno (emitted (snd (bbdebug rp self (PyInt n') (PyStr s) a kw w))))
          < last (map lr_levelno (emitted (snd (bbdebug rp self (PyInt n) (PyStr s) a kw w)))))
   \<and> (0 < n \<and> worker_pid w \<noteq> 0 \<longrightarrow>
        last (map lr_levelno (emitted (snd (bbdebug rp self (PyInt n) (PyStr s) a kw w))))
          < logging_INFO)"
  by (simp add: BBLoggerMixin_plain_def BBLoggerMixin_verbose_def BBLoggerMixin_verbnote_def
      BBLoggerMixin_warnonce_def BBLoggerMixin_erroronce_def Logger_log_def bbdebug_int
      logging_DEBUG_def logging_INFO_def)

theorem severity_levels_witness:
  "map lr_levelno (emitted (snd (bbdebug (\<lambda>v. ''?'') mainlogger (PyInt 1) (PyStr ''x'') [] []
      \<lparr>worker_pid = 7, loggerDefaultDomains = Map.empty, loggerDefaultLogLevel = 20,
       emitted = []\<rparr>))) = [10]
   \<and> map lr_levelno (emitted (snd (bbdebug (\<lambda>v. ''?'') mainlogger (PyInt 3) (PyStr ''x'') [] []
      \<lparr>worker_pid = 7, loggerDefaultDomains = Map.empty, loggerDefaultLogLevel = 20,
       emitted = []\<rparr>))) = [8]
   \<and> map lr_levelno (emitted (BBLoggerMixin_plain mainlogger (PyStr ''x'') [] []
      \<lparr>worker_pid = 7, loggerDefaultDomains = Map.empty, loggerDefaultLogLevel = 20,
       emitted = []\<rparr>)) = [21]
   \<and> (8::int) < 10 \<and> (10::int) < logging_INFO"
  using severity_levels [of mainlogger "PyStr ''x''" "[]" "[]"
      "\<lparr>worker_pid = 7, loggerDefaultDomains = Map.empty, loggerDefaultLogLevel = 20,
       emitted = []\<rparr>" "\<lambda>v. ''?''" 1 "''x''" 3]
    severity_levels [of mainlogger "PyStr ''x''" "[]" "[]"
      "\<lparr>worker_pid = 7, loggerDefaultDomains = Map.empty, loggerDefaultLogLevel = 20,
       emitted = []\<rparr>" "\<lambda>v. ''?''" 3 "''x''" 4]
  by (simp add: logging_DEBUG_def logging_INFO_def)

text \<open>
  Claim C9. For a logger whose name has \<^verbatim>\<open>BitBake\<close> as its first dot-separated segment,
  \<^verbatim>\<open>debug(msg, ...)\<close> is \<^verbatim>\<open>bbdebug(1, msg, ...)\<close>; for any other name
  \<^verbatim>\<open>setup_bblogger\<close> leaves the logger, and so its \<^verbatim>\<open>debug\<close>, unchanged.
\<close>

theorem setup_bblogger_debug:
  "(takeWhile (\<lambda>c. c \<noteq> CHR ''.'') nm = ''BitBake'' \<longrightarrow>
      call_debug rp (setup_bblogger self nm) m a kw w
        = bbdebug rp (setup_bblogger self nm) (PyInt 1) m a kw w
      \<and> call_debug rp (BBLogger_init nm) m a kw w
        = bbdebug rp (BBLogger_init nm) (PyInt 1) m a kw w)
   \<and> (takeWhile (\<lambda>c. c \<noteq> CHR ''.'') nm \<noteq> ''BitBake'' \<longrightarrow>
      setup_bblogger self nm = self
      \<and> call_debug rp (setup_bblogger self nm) m a kw w = call_debug rp self m a kw w)"
  by (simp add: setup_bblogger_def first_segment_takeWhile call_debug_def debug_helper_def
      BBLogger_init_def)

theorem setup_bblogger_debug_witness:
  "call_debug (\<lambda>v. ''?'') (BBLogger_init ''BitBake.Fetcher'') (PyStr ''x'') [] []
      \<lparr>worker_pid = 0, loggerDefaultDomains = Map.empty, loggerDefaultLogLevel = 10,
       emitted = []\<rparr>
     = bbdebug (\<lambda>v. ''?'') (BBLogger_init ''BitBake.Fetcher'') (PyInt 1) (PyStr ''x'') [] []
      \<lparr>worker_pid = 0, loggerDefaultDomains = Map.empty, loggerDefaultLogLevel = 10,
       emitted = []\<rparr>
   \<and> setup_bblogger \<lparr>logger_name = ''urllib3.BitBake'', debug_attr = Class_debug\<rparr>
        ''urllib3.BitBake''
     = \<lparr>logger_name = ''urllib3.BitBake'', debug_attr = Class_debug\<rparr>"
  using setup_bblogger_debug [of "''BitBake.Fetcher''" "\<lambda>v. ''?''"
      "\<lparr>logger_name = ''BitBake.Fetcher'', debug_attr = Class_debug\<rparr>" "PyStr ''x''" "[]" "[]"
      "\<lparr>worker_pid = 0, loggerDefaultDomains = Map.empty, loggerDefaultLogLevel = 10,
       emitted = []\<rparr>"]
    setup_bblogger_debug [of "''urllib3.BitBake''" "\<lambda>v. ''?''"
      "\<lparr>logger_name = ''urllib3.BitBake'', debug_attr = Class_debug\<rparr>" "PyStr ''x''" "[]" "[]"
      "\<lparr>worker_pid = 0, loggerDefaultDomains = Map.empty, loggerDefaultLogLevel = 10,
       emitted = []\<rparr>"]
  by simp

text \<open>
  Claim C10, as amended. When the level argument of the module-level \<^verbatim>\<open>debug\<close> is a
  string \<open>s\<close>, the function logs the warning and then calls \<^verbatim>\<open>bbdebug\<close> at level 1 with
  the body \<open>s\<close> followed by the concatenation of the fragments; the record with that
  body is emitted at level DEBUG exactly when the filter of \<^verbatim>\<open>bbdebug\<close> lets DEBUG
  through for \<^verbatim>\<open>BitBake.Main\<close> (always in a worker process).
\<close>

theorem debug_string_level_body:
  "debug rp (PyStr s) (map PyStr fs) w =
     (Inr (),
      w\<lparr>emitted := emitted w @
         [\<lparr>lr_name = ''BitBake.Main'', lr_levelno = logging_WARNING,
           lr_msg = PyStr ''Passed invalid debug level '%s' to bb.debug'',
           lr_args = [PyStr s], lr_kwargs = []\<rparr>] @
         (if worker_pid w = 0 \<and>
             ((case loggerDefaultDomains w ''BitBake.Main'' of None \<Rightarrow> False
               | Some t \<Rightarrow> logging_DEBUG > t)
              \<or> logging_DEBUG < loggerDefaultLogLevel w)
          then []
          else [\<lparr>lr_name = ''BitBake.Main'', lr_levelno = logging_DEBUG,
                  lr_msg = PyStr (s @ concat fs), lr_args = [], lr_kwargs = []\<rparr>])\<rparr>)"
  by (auto simp add: debug_str_level bbdebug_int mainlogger_name split: option.splits)

theorem debug_string_level_body_witness:
  "debug (\<lambda>v. ''?'') (PyStr ''x'') [PyStr ''y'', PyStr ''z'']
     \<lparr>worker_pid = 4242, loggerDefaultDomains = Map.empty, loggerDefaultLogLevel = 20,
      emitted = []\<rparr>
   = (Inr (),
      \<lparr>worker_pid = 4242, loggerDefaultDomains = Map.empty, loggerDefaultLogLevel = 20,
       emitted =
         [\<lparr>lr_name = ''BitBake.Main'', lr_levelno = 30,
            lr_msg = PyStr ''Passed invalid debug level '%s' to bb.debug'',
            lr_args = [PyStr ''x''], lr_kwargs = []\<rparr>,
          \<lparr>lr_name = ''BitBake.Main'', lr_levelno = 10, lr_msg = PyStr ''xyz'',
            lr_args = [], lr_kwargs = []\<rparr>]\<rparr>)"
  using debug_string_level_body [of "\<lambda>v. ''?''" "''x''" "[''y'', ''z'']"
      "\<lparr>worker_pid = 4242, loggerDefaultDomains = Map.empty, loggerDefaultLogLevel = 20,
        emitted = []\<rparr>"]
  by (simp add: logging_DEBUG_def logging_WARNING_def)

text \<open>
  Claim C10 as stated fails in the primary process when the default minimum level is
  INFO: \<^verbatim>\<open>debug("x", "y")\<close> emits the warning only, and no record at DEBUG(1).
\<close>

theorem debug_string_level_filtered_counterexample:
  "debug (\<lambda>v. ''?'') (PyStr ''x'') [PyStr ''y'']
     \<lparr>worker_pid = 0, loggerDefaultDomains = Map.empty, loggerDefaultLogLevel = 20,
      emitted = []\<rparr>
   = (Inr (),
      \<lparr>worker_pid = 0, loggerDefaultDomains = Map.empty, loggerDefaultLogLevel = 20,
       emitted =
         [\<lparr>lr_name = ''BitBake.Main'', lr_levelno = 30,
            lr_msg = PyStr ''Passed invalid debug level '%s' to bb.debug'',
            lr_args = [PyStr ''x''], lr_kwargs = []\<rparr>]\<rparr>)"
  using debug_str_level [of "\<lambda>v. ''?''" "''x''" "[''y'']"]
  by (simp add: bbdebug_int mainlogger_name logging_DEBUG_def logging_WARNING_def)

end
